theory Spec2Isabelle
  imports Main
begin

section \<open>Data model\<close>

text \<open>
  The server code under study is the route module of the vaccination registry: the two
  session gates \<^verbatim>\<open>requireAuth\<close> and \<^verbatim>\<open>requireAdmin\<close>, and the handlers
  \<^verbatim>\<open>POST /api/auth/signup\<close> and \<^verbatim>\<open>POST /api/auth/login\<close>.
  A user row is the object the storage layer returns; the fields a caller supplies to
  \<^verbatim>\<open>storage.createUser\<close> are the same object without the key \<^verbatim>\<open>id\<close>.
  The role is a plain string in the code (\<^verbatim>\<open>user.role !== 'admin'\<close>), so it is a
  string here.
\<close>

record insertUser =
  username :: string
  password :: string
  name :: string
  email :: "string option"
  phone :: "string option"
  role :: string
  isActive :: bool

record user = insertUser +
  user_id :: int

text \<open>
  The object left by \<^verbatim>\<open>const { password: _, ...userWithoutPassword } = user\<close>:
  every key of the row but \<^verbatim>\<open>password\<close>.
\<close>

record publicUser =
  pub_id :: int
  pub_username :: string
  pub_name :: string
  pub_email :: "string option"
  pub_phone :: "string option"
  pub_role :: string
  pub_isActive :: bool

definition userWithoutPassword :: "user \<Rightarrow> publicUser" where
  "userWithoutPassword u =
     \<lparr>pub_id = user_id u, pub_username = username u, pub_name = name u,
      pub_email = email u, pub_phone = phone u, pub_role = role u,
      pub_isActive = isActive u\<rparr>"

subsection \<open>The storage collaborator\<close>

text \<open>
  The module \<^verbatim>\<open>./storage\<close> is imported by the route module but is not part of the
  sources at hand. Its operations are modelled over an explicit state: the user rows, the
  next identifier to hand out, a script of faults (each call consumes the head of the
  script; \<open>Some e\<close> makes that call throw \<open>e\<close>, \<open>None\<close> or an exhausted script lets it
  succeed) and the list of calls made so far, in order.
\<close>

datatype store_error = StoreError string

datatype call =
    GetUser int
  | GetUserByUsername string
  | GetAllUsers
  | CreateUser insertUser

record storage_state =
  rows :: "user list"
  nextId :: int
  faults :: "store_error option list"
  calls :: "call list"

definition attempt :: "call \<Rightarrow> storage_state \<Rightarrow> store_error option \<times> storage_state" where
  "attempt c st =
     (case faults st of
        [] \<Rightarrow> (None, st\<lparr>calls := calls st @ [c]\<rparr>)
      | f # fs \<Rightarrow> (f, st\<lparr>faults := fs, calls := calls st @ [c]\<rparr>))"

text \<open>Modelled from the spec: \<^verbatim>\<open>storage.getUser\<close>, the boundary operation
  \<^verbatim>\<open>getUserById(id) -> User?\<close>; the storage module is missing from the sources.\<close>

definition getUser :: "int \<Rightarrow> storage_state \<Rightarrow> (store_error + user option) \<times> storage_state" where
  "getUser i st =
     (case attempt (GetUser i) st of
        (Some e, st') \<Rightarrow> (Inl e, st')
      | (None, st') \<Rightarrow> (Inr (find (\<lambda>u. user_id u = i) (rows st')), st'))"

text \<open>Modelled from the spec: \<^verbatim>\<open>storage.getUserByUsername\<close>, the boundary operation
  \<^verbatim>\<open>getUserByUsername(name) -> User?\<close>; the storage module is missing from the sources.\<close>

definition getUserByUsername ::
  "string \<Rightarrow> storage_state \<Rightarrow> (store_error + user option) \<times> storage_state" where
  "getUserByUsername n st =
     (case attempt (GetUserByUsername n) st of
        (Some e, st') \<Rightarrow> (Inl e, st')
      | (None, st') \<Rightarrow> (Inr (find (\<lambda>u. username u = n) (rows st')), st'))"

text \<open>Modelled from the spec: \<^verbatim>\<open>storage.getAllUsers\<close>, whose length the signup handler
  takes where the spec has \<^verbatim>\<open>countUsers() -> integer\<close>; the storage module is missing
  from the sources.\<close>

definition getAllUsers :: "storage_state \<Rightarrow> (store_error + user list) \<times> storage_state" where
  "getAllUsers st =
     (case attempt GetAllUsers st of
        (Some e, st') \<Rightarrow> (Inl e, st')
      | (None, st') \<Rightarrow> (Inr (rows st'), st'))"

text \<open>Modelled from the spec: \<^verbatim>\<open>storage.createUser\<close>, the boundary operation
  \<^verbatim>\<open>createUser(fields) -> User\<close>, which persists the fields as given and returns the
  row with its server-assigned identifier; the storage module is missing from the sources.\<close>

definition createUser ::
  "insertUser \<Rightarrow> storage_state \<Rightarrow> (store_error + user) \<times> storage_state" where
  "createUser f st =
     (case attempt (CreateUser f) st of
        (Some e, st') \<Rightarrow> (Inl e, st')
      | (None, st') \<Rightarrow>
          (let u = \<lparr>username = username f, password = password f, name = name f,
                    email = email f, phone = phone f, role = role f,
                    isActive = isActive f, user_id = nextId st'\<rparr>
           in (Inr u, st'\<lparr>rows := rows st' @ [u], nextId := nextId st' + 1\<rparr>)))"

subsection \<open>Sessions, requests, responses\<close>

text \<open>
  \<^verbatim>\<open>req.session\<close> is the session object of the session middleware; the only key the
  route module reads or writes is \<^verbatim>\<open>userId\<close>. The session store holds the saved
  sessions by session id. Two operations of the middleware are used by the route module:
  \<^verbatim>\<open>req.session.destroy(cb)\<close> removes \<^verbatim>\<open>req.session\<close> from the request, asks the store to
  drop the entry and hands the store's error, if any, to \<^verbatim>\<open>cb\<close>;
  \<^verbatim>\<open>req.session.save(cb)\<close> writes the session to the store and hands the store's error,
  if any, to \<^verbatim>\<open>cb\<close>. \<open>sessionFault\<close> is the error the session store answers with, if
  it is failing.
\<close>

record session =
  userId :: "int option"

record request =
  sessionID :: string
  session :: "session option"
  user :: "user option"

record world =
  storage :: storage_state
  sessions :: "(string \<times> session) list"
  sessionFault :: "string option"

definition dropSession :: "string \<Rightarrow> (string \<times> session) list \<Rightarrow> (string \<times> session) list" where
  "dropSession sid ss = filter (\<lambda>entry. fst entry \<noteq> sid) ss"

definition destroy :: "world \<Rightarrow> request \<Rightarrow> string option \<times> request \<times> world" where
  "destroy w req =
     (case sessionFault w of
        Some err \<Rightarrow> (Some err, req\<lparr>session := None\<rparr>, w)
      | None \<Rightarrow> (None, req\<lparr>session := None\<rparr>,
                 w\<lparr>sessions := dropSession (sessionID req) (sessions w)\<rparr>))"

definition save :: "world \<Rightarrow> string \<Rightarrow> session \<Rightarrow> string option \<times> world" where
  "save w sid s =
     (case sessionFault w of
        Some err \<Rightarrow> (Some err, w)
      | None \<Rightarrow> (None, w\<lparr>sessions := (sid, s) # dropSession sid (sessions w)\<rparr>))"

datatype body =
    Message string
  | UserBody publicUser

record response =
  status :: nat
  body :: body

text \<open>
  What a middleware does with a request: call \<^verbatim>\<open>next()\<close>, send a response, or (being
  an \<^verbatim>\<open>async\<close> function without a \<^verbatim>\<open>try\<close>) reject with the error an awaited call threw.
\<close>

datatype outcome =
    Next
  | Respond response
  | Throw store_error

definition unauthorized :: response where
  "unauthorized = \<lparr>status = 401, body = Message ''Unauthorized''\<rparr>"

definition adminRequired :: response where
  "adminRequired = \<lparr>status = 403, body = Message ''Admin access required''\<rparr>"

text \<open>
  \<^verbatim>\<open>req.session?.userId\<close> read for its truth value: the session may be gone, the key may
  be unset, and the number \<open>0\<close> is falsy. The result is the user id the gates go on with.
\<close>

definition sessionUserId :: "request \<Rightarrow> int option" where
  "sessionUserId req =
     (case session req of
        None \<Rightarrow> None
      | Some s \<Rightarrow> (case userId s of None \<Rightarrow> None | Some i \<Rightarrow> if i = 0 then None else Some i))"

section \<open>The session gates\<close>

text \<open>
  \<^verbatim>\<open>requireAuth\<close> as in the route module that has the signup route. The opening
  \<^verbatim>\<open>console.log\<close> has no effect on the state modelled here.
\<close>

definition requireAuth :: "world \<Rightarrow> request \<Rightarrow> outcome \<times> request \<times> world" where
  "requireAuth w req =
     (case sessionUserId req of
        None \<Rightarrow> (Respond unauthorized, req, w)
      | Some i \<Rightarrow>
          (case getUser i (storage w) of
             (Inl e, st') \<Rightarrow> (Throw e, req, w\<lparr>storage := st'\<rparr>)
           | (Inr found, st') \<Rightarrow>
               (case found of
                  None \<Rightarrow>
                    (case destroy (w\<lparr>storage := st'\<rparr>) req of
                       (err, req', w') \<Rightarrow> (Respond unauthorized, req', w'))
                | Some u \<Rightarrow>
                    if \<not> isActive u then
                      (case destroy (w\<lparr>storage := st'\<rparr>) req of
                         (err, req', w') \<Rightarrow> (Respond unauthorized, req', w'))
                    else (Next, req\<lparr>user := Some u\<rparr>, w\<lparr>storage := st'\<rparr>))))"

text \<open>
  \<^verbatim>\<open>requireAuth\<close> as in \<^verbatim>\<open>server/routes.ts\<close>, the route module without the signup
  route: the session's user id is tested and nothing else is done.
\<close>

definition requireAuth_routes :: "world \<Rightarrow> request \<Rightarrow> outcome \<times> request \<times> world" where
  "requireAuth_routes w req =
     (case sessionUserId req of
        None \<Rightarrow> (Respond unauthorized, req, w)
      | Some i \<Rightarrow> (Next, req, w))"

text \<open>\<^verbatim>\<open>requireAdmin\<close>, the same text in both route modules.\<close>

definition requireAdmin :: "world \<Rightarrow> request \<Rightarrow> outcome \<times> request \<times> world" where
  "requireAdmin w req =
     (case sessionUserId req of
        None \<Rightarrow> (Respond unauthorized, req, w)
      | Some i \<Rightarrow>
          (case getUser i (storage w) of
             (Inl e, st') \<Rightarrow> (Throw e, req, w\<lparr>storage := st'\<rparr>)
           | (Inr found, st') \<Rightarrow>
               (case found of
                  None \<Rightarrow> (Respond adminRequired, req, w\<lparr>storage := st'\<rparr>)
                | Some u \<Rightarrow>
                    if role u \<noteq> ''admin'' then (Respond adminRequired, req, w\<lparr>storage := st'\<rparr>)
                    else (Next, req, w\<lparr>storage := st'\<rparr>))))"

section \<open>The signup and login handlers\<close>

text \<open>
  The JSON body of a signup request, destructured as
  \<^verbatim>\<open>const { username, password, name, email, phone, isFirstUser } = req.body\<close>.
  A key that is absent is \<open>None\<close>; text values are strings. The handler only reads the
  truth value of \<^verbatim>\<open>isFirstUser\<close>, which is what the last field holds.
\<close>

record signupBody =
  body_username :: "string option"
  body_password :: "string option"
  body_name :: "string option"
  body_email :: "string option"
  body_phone :: "string option"
  body_isFirstUser :: bool

text \<open>\<^verbatim>\<open>v || null\<close> on an optional string: an absent or empty value becomes null.\<close>

definition orNull :: "string option \<Rightarrow> string option" where
  "orNull v = (case v of None \<Rightarrow> None | Some s \<Rightarrow> if s = [] then None else Some s)"

text \<open>
  The role expression of the signup handler,
  \<^verbatim>\<open>allUsers.length === 0 || isFirstUser ? 'admin' : 'health_worker'\<close>,
  as a function of the length and of the flag's truth value.
\<close>

definition assignRole :: "nat \<Rightarrow> bool \<Rightarrow> string" where
  "assignRole existingUserCount isFirstUser =
     (if existingUserCount = 0 \<or> isFirstUser then ''admin'' else ''health_worker'')"

definition fieldsRequired :: response where
  "fieldsRequired = \<lparr>status = 400, body = Message ''Username, password, and name are required''\<rparr>"

definition usernameExists :: response where
  "usernameExists = \<lparr>status = 400, body = Message ''Username already exists''\<rparr>"

definition signupFailed :: response where
  "signupFailed = \<lparr>status = 500, body = Message ''Signup failed''\<rparr>"

text \<open>
  \<^verbatim>\<open>app.post("/api/auth/signup", ...)\<close>. Every storage call sits inside the handler's
  \<^verbatim>\<open>try\<close>, so a throwing call ends in the \<^verbatim>\<open>catch\<close> branch and status 500; so does
  the assignment \<^verbatim>\<open>req.session.userId = newUser.id\<close> on a request without a session
  object. The callback given to \<^verbatim>\<open>req.session.save\<close> only logs.
\<close>

definition signup :: "world \<Rightarrow> request \<Rightarrow> signupBody \<Rightarrow> response \<times> request \<times> world" where
  "signup w req b =
     (case (body_username b, body_password b, body_name b) of
        (Some un, Some pw, Some nm) \<Rightarrow>
          if un = [] \<or> pw = [] \<or> nm = [] then (fieldsRequired, req, w)
          else
            (case getUserByUsername un (storage w) of
               (Inl e, st1) \<Rightarrow> (signupFailed, req, w\<lparr>storage := st1\<rparr>)
             | (Inr (Some existingUser), st1) \<Rightarrow> (usernameExists, req, w\<lparr>storage := st1\<rparr>)
             | (Inr None, st1) \<Rightarrow>
                 (case getAllUsers st1 of
                    (Inl e, st2) \<Rightarrow> (signupFailed, req, w\<lparr>storage := st2\<rparr>)
                  | (Inr allUsers, st2) \<Rightarrow>
                      (case createUser
                              \<lparr>username = un, password = pw, name = nm,
                               email = orNull (body_email b), phone = orNull (body_phone b),
                               role = assignRole (length allUsers) (body_isFirstUser b),
                               isActive = True\<rparr> st2 of
                         (Inl e, st3) \<Rightarrow> (signupFailed, req, w\<lparr>storage := st3\<rparr>)
                       | (Inr newUser, st3) \<Rightarrow>
                           (case session req of
                              None \<Rightarrow> (signupFailed, req, w\<lparr>storage := st3\<rparr>)
                            | Some s \<Rightarrow>
                                (let s' = s\<lparr>userId := Some (user_id newUser)\<rparr>
                                 in (case save (w\<lparr>storage := st3\<rparr>) (sessionID req) s' of
                                       (err, w') \<Rightarrow>
                                         (\<lparr>status = 200, body = UserBody (userWithoutPassword newUser)\<rparr>,
                                          req\<lparr>session := Some s'\<rparr>, w')))))))
      | _ \<Rightarrow> (fieldsRequired, req, w))"

record loginBody =
  login_username :: "string option"
  login_password :: "string option"

definition credentialsRequired :: response where
  "credentialsRequired = \<lparr>status = 400, body = Message ''Username and password are required''\<rparr>"

definition invalidCredentials :: response where
  "invalidCredentials = \<lparr>status = 401, body = Message ''Invalid credentials''\<rparr>"

definition loginFailed :: response where
  "loginFailed = \<lparr>status = 500, body = Message ''Login failed''\<rparr>"

text \<open>
  \<^verbatim>\<open>app.post("/api/auth/login", ...)\<close>. The password check is the library call
  \<^verbatim>\<open>bcrypt.compare(password, user.password)\<close>, taken as the parameter \<open>compare\<close>:
  its first argument is the password of the request, its second the stored one.
\<close>

definition login ::
  "(string \<Rightarrow> string \<Rightarrow> bool) \<Rightarrow> world \<Rightarrow> request \<Rightarrow> loginBody \<Rightarrow> response \<times> request \<times> world" where
  "login compare w req b =
     (case (login_username b, login_password b) of
        (Some un, Some pw) \<Rightarrow>
          if un = [] \<or> pw = [] then (credentialsRequired, req, w)
          else
            (case getUserByUsername un (storage w) of
               (Inl e, st1) \<Rightarrow> (loginFailed, req, w\<lparr>storage := st1\<rparr>)
             | (Inr None, st1) \<Rightarrow> (invalidCredentials, req, w\<lparr>storage := st1\<rparr>)
             | (Inr (Some u), st1) \<Rightarrow>
                 if \<not> isActive u then (invalidCredentials, req, w\<lparr>storage := st1\<rparr>)
                 else if \<not> compare pw (password u) then (invalidCredentials, req, w\<lparr>storage := st1\<rparr>)
                 else
                   (case session req of
                      None \<Rightarrow> (loginFailed, req, w\<lparr>storage := st1\<rparr>)
                    | Some s \<Rightarrow>
                        (let s' = s\<lparr>userId := Some (user_id u)\<rparr>
                         in (case save (w\<lparr>storage := st1\<rparr>) (sessionID req) s' of
                               (err, w') \<Rightarrow>
                                 (\<lparr>status = 200, body = UserBody (userWithoutPassword u)\<rparr>,
                                  req\<lparr>session := Some s'\<rparr>, w')))))
      | _ \<Rightarrow> (credentialsRequired, req, w))"

text \<open>The calls a handler or gate added to the storage log.\<close>

definition newCalls :: "world \<Rightarrow> world \<Rightarrow> call list" where
  "newCalls w w' = drop (length (calls (storage w))) (calls (storage w'))"

text \<open>
  The object literal the signup handler hands to \<^verbatim>\<open>storage.createUser\<close>, given the three
  required values of the body and the number of users found.
\<close>

definition signupFields :: "string \<Rightarrow> string \<Rightarrow> string \<Rightarrow> signupBody \<Rightarrow> nat \<Rightarrow> insertUser" where
  "signupFields un pw nm b n =
     \<lparr>username = un, password = pw, name = nm,
      email = orNull (body_email b), phone = orNull (body_phone b),
      role = assignRole n (body_isFirstUser b), isActive = True\<rparr>"

text \<open>
  The bodies that pass the handler's test \<^verbatim>\<open>!username || !password || !name\<close>: the three
  keys are present and none is the empty string.
\<close>

definition wellFormed :: "signupBody \<Rightarrow> string \<Rightarrow> string \<Rightarrow> string \<Rightarrow> bool" where
  "wellFormed b un pw nm =
     (body_username b = Some un \<and> un \<noteq> [] \<and> body_password b = Some pw \<and> pw \<noteq> []
      \<and> body_name b = Some nm \<and> nm \<noteq> [])"

text \<open>
  The bodies that pass the login handler's test \<^verbatim>\<open>!username || !password\<close>.
\<close>

definition credentials :: "loginBody \<Rightarrow> string \<Rightarrow> string \<Rightarrow> bool" where
  "credentials b un pw =
     (login_username b = Some un \<and> un \<noteq> [] \<and> login_password b = Some pw \<and> pw \<noteq> [])"

section \<open>Example data\<close>

text \<open>
  A store with an active administrator, a deactivated health worker (user 42) and an active
  health worker; a deactivated administrator; and a request whose session carries a given user id.
\<close>

definition alice :: user where
  "alice = \<lparr>username = ''alice'', password = ''pw'', name = ''Alice'', email = None,
            phone = None, role = ''admin'', isActive = True, user_id = 1\<rparr>"

definition bob :: user where
  "bob = \<lparr>username = ''bob'', password = ''pw'', name = ''Bob'', email = None,
          phone = None, role = ''health_worker'', isActive = False, user_id = 42\<rparr>"

definition carol :: user where
  "carol = \<lparr>username = ''carol'', password = ''pw'', name = ''Carol'', email = None,
            phone = None, role = ''health_worker'', isActive = True, user_id = 3\<rparr>"

definition dave :: user where
  "dave = \<lparr>username = ''dave'', password = ''pw'', name = ''Dave'', email = None,
           phone = None, role = ''admin'', isActive = False, user_id = 4\<rparr>"

definition exampleWorld :: "store_error option list \<Rightarrow> string option \<Rightarrow> world" where
  "exampleWorld fs sf =
     \<lparr>storage = \<lparr>rows = [alice, bob, carol], nextId = 43, faults = fs, calls = []\<rparr>,
      sessions = [(''sid'', \<lparr>userId = Some 42\<rparr>)], sessionFault = sf\<rparr>"

definition exampleRequest :: "int option \<Rightarrow> request" where
  "exampleRequest i = \<lparr>sessionID = ''sid'', session = Some \<lparr>userId = i\<rparr>, user = None\<rparr>"

text \<open>The empty system, and a signup body without the optional keys.\<close>

definition emptyWorld :: world where
  "emptyWorld = \<lparr>storage = \<lparr>rows = [], nextId = 1, faults = [], calls = []\<rparr>,
                  sessions = [], sessionFault = None\<rparr>"

definition signupRequest :: "string \<Rightarrow> string option \<Rightarrow> string \<Rightarrow> signupBody" where
  "signupRequest un pw nm =
     \<lparr>body_username = Some un, body_password = pw, body_name = Some nm,
      body_email = None, body_phone = None, body_isFirstUser = False\<rparr>"

text \<open>A login body.\<close>

definition loginRequest :: "string \<Rightarrow> string \<Rightarrow> loginBody" where
  "loginRequest un pw = \<lparr>login_username = Some un, login_password = Some pw\<rparr>"

lemmas example_defs = alice_def bob_def carol_def dave_def exampleWorld_def exampleRequest_def
  emptyWorld_def signupRequest_def loginRequest_def

section \<open>Properties of the gates\<close>

lemma map_of_dropSession: "map_of (dropSession sid ss) sid = None"
  by (induction ss) (auto simp: dropSession_def)

text \<open>
  C5. A request whose session carries no user id (no session object, no \<^verbatim>\<open>userId\<close> key,
  or the falsy id \<open>0\<close>) is answered by \<^verbatim>\<open>requireAuth\<close> with status 401 and the message
  ``Unauthorized''; the request and the whole world come back as they were, so the storage
  saw no call: its rows, its fault script and its call log are untouched. This holds for
  the gate of either route module.
\<close>

theorem requireAuth_no_session:
  assumes "sessionUserId req = None"
  shows "requireAuth w req = (Respond \<lparr>status = 401, body = Message ''Unauthorized''\<rparr>, req, w)
       \<and> requireAuth_routes w req
           = (Respond \<lparr>status = 401, body = Message ''Unauthorized''\<rparr>, req, w)"
  using assms by (simp add: requireAuth_def requireAuth_routes_def unauthorized_def)

theorem requireAuth_no_session_witness:
  "sessionUserId (exampleRequest None) = None
   \<and> requireAuth (exampleWorld [] None) (exampleRequest None)
       = (Respond \<lparr>status = 401, body = Message ''Unauthorized''\<rparr>,
          exampleRequest None, exampleWorld [] None)"
proof -
  have h: "sessionUserId (exampleRequest None) = None"
    by (simp add: sessionUserId_def exampleRequest_def)
  show ?thesis using h requireAuth_no_session [OF h] by simp
qed

text \<open>
  C1, as the claim has it, fails for the gate of \<^verbatim>\<open>server/routes.ts\<close>: the session of
  the deactivated user 42 passes it. The request goes on with its session in place, and the
  storage is not asked.
\<close>

theorem requireAuth_routes_inactive_counterexample:
  "sessionUserId (exampleRequest (Some 42)) = Some 42
   \<and> fst (getUser 42 (storage (exampleWorld [] None))) = Inr (Some bob)
   \<and> isActive bob = False
   \<and> requireAuth_routes (exampleWorld [] None) (exampleRequest (Some 42))
       = (Next, exampleRequest (Some 42), exampleWorld [] None)
   \<and> session (exampleRequest (Some 42)) = Some \<lparr>userId = Some 42\<rparr>
   \<and> calls (storage (exampleWorld [] None)) = []"
  by (simp add: requireAuth_routes_def sessionUserId_def getUser_def attempt_def example_defs)

text \<open>
  C1, as the code has it. When the session's user id resolves to no row, or to a row whose
  \<^verbatim>\<open>isActive\<close> is false, \<^verbatim>\<open>requireAuth\<close> of the route module with the signup route
  answers 401 ``Unauthorized'' and destroys the session: \<^verbatim>\<open>req.session\<close> is gone, and the
  entry is dropped from the session store when the store obeys. When the session store
  fails, the answer is the same 401 and the error goes nowhere: the callback ignores it.
  \<^verbatim>\<open>requireAuth\<close> of \<^verbatim>\<open>server/routes.ts\<close> resolves nothing: on the same session it calls
  \<^verbatim>\<open>next()\<close> and leaves request, session and storage as they were.
\<close>

theorem requireAuth_missing_or_inactive:
  assumes "sessionUserId req = Some i"
      and "getUser i (storage w) = (Inr found, st')"
      and "found = None \<or> (\<exists>u. found = Some u \<and> \<not> isActive u)"
  shows "requireAuth w req =
           (Respond \<lparr>status = 401, body = Message ''Unauthorized''\<rparr>,
            req\<lparr>session := None\<rparr>,
            (case sessionFault w of
               None \<Rightarrow> w\<lparr>storage := st', sessions := dropSession (sessionID req) (sessions w)\<rparr>
             | Some err \<Rightarrow> w\<lparr>storage := st'\<rparr>))
       \<and> (sessionFault w = None \<longrightarrow>
            map_of (sessions (snd (snd (requireAuth w req)))) (sessionID req) = None)
       \<and> requireAuth_routes w req = (Next, req, w)"
  using assms
  by (auto simp add: requireAuth_def requireAuth_routes_def unauthorized_def destroy_def
           map_of_dropSession split: option.splits)

theorem requireAuth_missing_or_inactive_witness:
  "sessionUserId (exampleRequest (Some 42)) = Some 42
   \<and> getUser 42 (storage (exampleWorld [] (Some ''session store down'')))
       = (Inr (Some bob),
          \<lparr>rows = [alice, bob, carol], nextId = 43, faults = [], calls = [GetUser 42]\<rparr>)
   \<and> \<not> isActive bob
   \<and> requireAuth (exampleWorld [] (Some ''session store down'')) (exampleRequest (Some 42))
       = (Respond \<lparr>status = 401, body = Message ''Unauthorized''\<rparr>,
          \<lparr>sessionID = ''sid'', session = None, user = None\<rparr>,
          \<lparr>storage = \<lparr>rows = [alice, bob, carol], nextId = 43, faults = [],
                      calls = [GetUser 42]\<rparr>,
           sessions = [(''sid'', \<lparr>userId = Some 42\<rparr>)],
           sessionFault = Some ''session store down''\<rparr>)
   \<and> sessionFault (exampleWorld [] None) = None
   \<and> requireAuth (exampleWorld [] None) (exampleRequest (Some 42))
       = (Respond \<lparr>status = 401, body = Message ''Unauthorized''\<rparr>,
          \<lparr>sessionID = ''sid'', session = None, user = None\<rparr>,
          \<lparr>storage = \<lparr>rows = [alice, bob, carol], nextId = 43, faults = [],
                      calls = [GetUser 42]\<rparr>,
           sessions = [], sessionFault = None\<rparr>)
   \<and> map_of (sessions (snd (snd (requireAuth (exampleWorld [] None) (exampleRequest (Some 42))))))
         (sessionID (exampleRequest (Some 42))) = None
   \<and> requireAuth_routes (exampleWorld [] None) (exampleRequest (Some 42))
       = (Next, exampleRequest (Some 42), exampleWorld [] None)"
proof -
  have h1: "sessionUserId (exampleRequest (Some 42)) = Some 42"
    by (simp add: sessionUserId_def exampleRequest_def)
  have h2: "getUser 42 (storage (exampleWorld [] sf))
       = (Inr (Some bob),
          \<lparr>rows = [alice, bob, carol], nextId = 43, faults = [], calls = [GetUser 42]\<rparr>)" for sf
    by (simp add: getUser_def attempt_def example_defs)
  have h3: "Some bob = None \<or> (\<exists>u. Some bob = Some u \<and> \<not> isActive u)"
    by (simp add: bob_def)
  have h4: "sessionFault (exampleWorld [] None) = None"
    by (simp add: exampleWorld_def)
  have r: "requireAuth_routes (exampleWorld [] None) (exampleRequest (Some 42))
       = (Next, exampleRequest (Some 42), exampleWorld [] None)"
    using requireAuth_missing_or_inactive [OF h1 h2 h3, of None] by (rule conjunct2 [THEN conjunct2])
  have m: "requireAuth (exampleWorld [] (Some ''session store down'')) (exampleRequest (Some 42))
       = (Respond \<lparr>status = 401, body = Message ''Unauthorized''\<rparr>,
          \<lparr>sessionID = ''sid'', session = None, user = None\<rparr>,
          \<lparr>storage = \<lparr>rows = [alice, bob, carol], nextId = 43, faults = [],
                      calls = [GetUser 42]\<rparr>,
           sessions = [(''sid'', \<lparr>userId = Some 42\<rparr>)],
           sessionFault = Some ''session store down''\<rparr>)
   \<and> requireAuth (exampleWorld [] None) (exampleRequest (Some 42))
       = (Respond \<lparr>status = 401, body = Message ''Unauthorized''\<rparr>,
          \<lparr>sessionID = ''sid'', session = None, user = None\<rparr>,
          \<lparr>storage = \<lparr>rows = [alice, bob, carol], nextId = 43, faults = [],
                      calls = [GetUser 42]\<rparr>,
           sessions = [], sessionFault = None\<rparr>)
   \<and> map_of (sessions (snd (snd (requireAuth (exampleWorld [] None) (exampleRequest (Some 42))))))
         (sessionID (exampleRequest (Some 42))) = None"
    using h4 requireAuth_missing_or_inactive [OF h1 h2 h3, THEN conjunct1]
      requireAuth_missing_or_inactive [OF h1 h2 h3, THEN conjunct2, THEN conjunct1]
    by (simp add: exampleWorld_def exampleRequest_def bob_def dropSession_def)
  have nb: "\<not> isActive bob" by (simp add: bob_def)
  show ?thesis
    using h1 h2 [of "Some ''session store down''"] nb m h4 r by (intro conjI) simp_all
qed

text \<open>
  C3, as the code has it. When the session's user id resolves to a row whose
  \<^verbatim>\<open>isActive\<close> is true, \<^verbatim>\<open>requireAuth\<close> sets \<^verbatim>\<open>req.user\<close> to exactly the row the storage
  returned, every key included, and calls \<^verbatim>\<open>next()\<close>; nothing else changes but the
  storage having served the lookup.
\<close>

theorem requireAuth_active_user:
  assumes "sessionUserId req = Some i"
      and "getUser i (storage w) = (Inr (Some u), st')"
      and "isActive u"
  shows "requireAuth w req = (Next, req\<lparr>user := Some u\<rparr>, w\<lparr>storage := st'\<rparr>)"
  using assms by (simp add: requireAuth_def)

theorem requireAuth_active_user_witness:
  "sessionUserId (exampleRequest (Some 3)) = Some 3
   \<and> getUser 3 (storage (exampleWorld [] None))
       = (Inr (Some carol),
          \<lparr>rows = [alice, bob, carol], nextId = 43, faults = [], calls = [GetUser 3]\<rparr>)
   \<and> isActive carol
   \<and> requireAuth (exampleWorld [] None) (exampleRequest (Some 3))
       = (Next, \<lparr>sessionID = ''sid'', session = Some \<lparr>userId = Some 3\<rparr>, user = Some carol\<rparr>,
          \<lparr>storage = \<lparr>rows = [alice, bob, carol], nextId = 43, faults = [],
                      calls = [GetUser 3]\<rparr>,
           sessions = [(''sid'', \<lparr>userId = Some 42\<rparr>)], sessionFault = None\<rparr>)"
proof -
  have h1: "sessionUserId (exampleRequest (Some 3)) = Some 3"
    by (simp add: sessionUserId_def exampleRequest_def)
  have h2: "getUser 3 (storage (exampleWorld [] None))
       = (Inr (Some carol),
          \<lparr>rows = [alice, bob, carol], nextId = 43, faults = [], calls = [GetUser 3]\<rparr>)"
    by (simp add: getUser_def attempt_def example_defs)
  have h3: "isActive carol"
    by (simp add: carol_def)
  show ?thesis
    using h1 h2 h3 requireAuth_active_user [OF h1 h2 h3]
    by (simp add: exampleWorld_def exampleRequest_def)
qed

text \<open>
  C3, as the claim has it, fails: the record attached for the active user carol is not
  stripped of its secret. The request that goes on to the handler carries her stored
  password.
\<close>

theorem requireAuth_keeps_password_counterexample:
  "fst (requireAuth (exampleWorld [] None) (exampleRequest (Some 3))) = Next
   \<and> map_option password
        (user (fst (snd (requireAuth (exampleWorld [] None) (exampleRequest (Some 3))))))
       = Some ''pw''"
  by (simp add: requireAuth_def sessionUserId_def getUser_def attempt_def example_defs)

text \<open>
  C2, as the claim has it, fails: for a session whose user id resolves to no row,
  \<^verbatim>\<open>requireAdmin\<close> answers 403 ``Admin access required'', not 401, and leaves the
  session where it is, on the request and in the session store.
\<close>

theorem requireAdmin_missing_user_counterexample:
  "sessionUserId (exampleRequest (Some 7)) = Some 7
   \<and> fst (getUser 7 (storage (exampleWorld [] None))) = Inr None
   \<and> requireAdmin (exampleWorld [] None) (exampleRequest (Some 7))
       = (Respond \<lparr>status = 403, body = Message ''Admin access required''\<rparr>,
          \<lparr>sessionID = ''sid'', session = Some \<lparr>userId = Some 7\<rparr>, user = None\<rparr>,
          \<lparr>storage = \<lparr>rows = [alice, bob, carol], nextId = 43, faults = [],
                      calls = [GetUser 7]\<rparr>,
           sessions = [(''sid'', \<lparr>userId = Some 42\<rparr>)], sessionFault = None\<rparr>)"
  by (simp add: requireAdmin_def adminRequired_def sessionUserId_def getUser_def attempt_def
        example_defs)

text \<open>
  C2, as the code has it. \<^verbatim>\<open>requireAdmin\<close> answers 401 ``Unauthorized'' when the session
  carries no user id. Otherwise it looks the user up once: when there is no such row it
  answers 403 ``Admin access required'' and destroys nothing; when the row is that of an
  active user it answers 403 exactly when the role is not \<^verbatim>\<open>'admin'\<close> and calls
  \<^verbatim>\<open>next()\<close> when it is. The request is never changed.
\<close>

theorem requireAdmin_resolution:
  "(sessionUserId req = None \<longrightarrow>
      requireAdmin w req = (Respond \<lparr>status = 401, body = Message ''Unauthorized''\<rparr>, req, w))
   \<and> (sessionUserId req = Some i \<and> getUser i (storage w) = (Inr None, st') \<longrightarrow>
      requireAdmin w req
        = (Respond \<lparr>status = 403, body = Message ''Admin access required''\<rparr>, req,
           w\<lparr>storage := st'\<rparr>))
   \<and> (sessionUserId req = Some i \<and> getUser i (storage w) = (Inr (Some u), st') \<and> isActive u \<longrightarrow>
      requireAdmin w req
        = (if role u = ''admin'' then Next
           else Respond \<lparr>status = 403, body = Message ''Admin access required''\<rparr>,
           req, w\<lparr>storage := st'\<rparr>))"
  by (simp add: requireAdmin_def unauthorized_def adminRequired_def)

theorem requireAdmin_resolution_witness:
  "requireAdmin (exampleWorld [] None) (exampleRequest None)
     = (Respond \<lparr>status = 401, body = Message ''Unauthorized''\<rparr>,
        exampleRequest None, exampleWorld [] None)
   \<and> requireAdmin (exampleWorld [] None) (exampleRequest (Some 7))
     = (Respond \<lparr>status = 403, body = Message ''Admin access required''\<rparr>,
        exampleRequest (Some 7),
        (exampleWorld [] None)\<lparr>storage :=
           \<lparr>rows = [alice, bob, carol], nextId = 43, faults = [], calls = [GetUser 7]\<rparr>\<rparr>)
   \<and> requireAdmin (exampleWorld [] None) (exampleRequest (Some 3))
     = (Respond \<lparr>status = 403, body = Message ''Admin access required''\<rparr>,
        exampleRequest (Some 3),
        (exampleWorld [] None)\<lparr>storage :=
           \<lparr>rows = [alice, bob, carol], nextId = 43, faults = [], calls = [GetUser 3]\<rparr>\<rparr>)
   \<and> requireAdmin (exampleWorld [] None) (exampleRequest (Some 1))
     = (Next, exampleRequest (Some 1),
        (exampleWorld [] None)\<lparr>storage :=
           \<lparr>rows = [alice, bob, carol], nextId = 43, faults = [], calls = [GetUser 1]\<rparr>\<rparr>)"
proof -
  have n: "sessionUserId (exampleRequest None) = None"
    by (simp add: sessionUserId_def exampleRequest_def)
  have s: "sessionUserId (exampleRequest (Some 7)) = Some 7"
          "sessionUserId (exampleRequest (Some 3)) = Some 3"
          "sessionUserId (exampleRequest (Some 1)) = Some 1"
    by (simp_all add: sessionUserId_def exampleRequest_def)
  have g7: "getUser 7 (storage (exampleWorld [] None))
      = (Inr None, \<lparr>rows = [alice, bob, carol], nextId = 43, faults = [], calls = [GetUser 7]\<rparr>)"
    by (simp add: getUser_def attempt_def example_defs)
  have g3: "getUser 3 (storage (exampleWorld [] None))
      = (Inr (Some carol),
         \<lparr>rows = [alice, bob, carol], nextId = 43, faults = [], calls = [GetUser 3]\<rparr>)"
    by (simp add: getUser_def attempt_def example_defs)
  have g1: "getUser 1 (storage (exampleWorld [] None))
      = (Inr (Some alice),
         \<lparr>rows = [alice, bob, carol], nextId = 43, faults = [], calls = [GetUser 1]\<rparr>)"
    by (simp add: getUser_def attempt_def example_defs)
  have a: "isActive carol" "isActive alice" "role carol \<noteq> ''admin''" "role alice = ''admin''"
    by (simp_all add: carol_def alice_def)
  show ?thesis
    using n s g7 g3 g1 a
      requireAdmin_resolution [of "exampleRequest None" "exampleWorld [] None"]
      requireAdmin_resolution [of "exampleRequest (Some 7)" "exampleWorld [] None" 7]
      requireAdmin_resolution [of "exampleRequest (Some 3)" "exampleWorld [] None" 3 _ carol]
      requireAdmin_resolution [of "exampleRequest (Some 1)" "exampleWorld [] None" 1 _ alice]
    by simp
qed

text \<open>
  The gate \<^verbatim>\<open>requireAdmin\<close> never reads \<^verbatim>\<open>isActive\<close>, which \<^verbatim>\<open>requireAuth\<close> does
  under the comment ``Verify user still exists and is active'': a deactivated
  administrator with a live session passes it.
\<close>

lemma requireAdmin_inactive_admin:
  "\<not> isActive dave \<and>
   fst (requireAdmin
     \<lparr>storage = \<lparr>rows = [alice, dave], nextId = 5, faults = [], calls = []\<rparr>,
      sessions = [], sessionFault = None\<rparr>
     (exampleRequest (Some 4))) = Next"
  by (simp add: requireAdmin_def sessionUserId_def getUser_def attempt_def example_defs dave_def)

text \<open>
  C7, as the claim has it, fails on two counts. When \<^verbatim>\<open>requireAdmin\<close> lets an
  administrator through, no identity is attached: \<^verbatim>\<open>req.user\<close> stays unset. And a
  failing lookup does not make a gate answer with status 500: the gate sends nothing and
  the error leaves it as the rejection of its promise, here although the storage would have
  served a second attempt.
\<close>

theorem gates_counterexample:
  "fst (requireAdmin (exampleWorld [] None) (exampleRequest (Some 1))) = Next
   \<and> user (fst (snd (requireAdmin (exampleWorld [] None) (exampleRequest (Some 1))))) = None
   \<and> fst (requireAuth (exampleWorld [Some (StoreError ''db down''), None] None)
             (exampleRequest (Some 1))) = Throw (StoreError ''db down'')"
  by (simp add: requireAdmin_def requireAuth_def sessionUserId_def getUser_def attempt_def example_defs)

lemma getUser_Inl:
  "getUser i st = (Inl e, st') \<Longrightarrow>
     faults st = Some e # faults st' \<and> calls st' = calls st @ [GetUser i] \<and> rows st' = rows st
     \<and> nextId st' = nextId st"
  by (auto simp: getUser_def attempt_def split: list.splits option.splits)

text \<open>
  C7, as the code has it. \<^verbatim>\<open>requireAuth\<close> ends in one of three ways: \<^verbatim>\<open>next()\<close> with the
  resolved row attached, the 401 response, or the error of the failed lookup thrown on.
  \<^verbatim>\<open>requireAdmin\<close> ends in one of four ways: \<^verbatim>\<open>next()\<close> with the request as it came
  (no identity attached), the 401 response, the 403 response, or the error of the failed
  lookup thrown on. When the lookup fails with \<open>e\<close>, either gate throws that same \<open>e\<close>
  and sends no response, after exactly one \<^verbatim>\<open>getUser\<close> call that consumed exactly one
  entry of the fault script: nothing is retried.
\<close>

theorem gates_outcomes:
  "(case fst (requireAuth w req) of
      Next \<Rightarrow> \<exists>i u st'. sessionUserId req = Some i \<and> getUser i (storage w) = (Inr (Some u), st')
                \<and> user (fst (snd (requireAuth w req))) = Some u
    | Respond r \<Rightarrow> r = \<lparr>status = 401, body = Message ''Unauthorized''\<rparr>
    | Throw e \<Rightarrow> \<exists>i st'. sessionUserId req = Some i \<and> getUser i (storage w) = (Inl e, st'))
   \<and> (case fst (requireAdmin w req) of
      Next \<Rightarrow> fst (snd (requireAdmin w req)) = req
    | Respond r \<Rightarrow> r = \<lparr>status = 401, body = Message ''Unauthorized''\<rparr>
                 \<or> r = \<lparr>status = 403, body = Message ''Admin access required''\<rparr>
    | Throw e \<Rightarrow> \<exists>i st'. sessionUserId req = Some i \<and> getUser i (storage w) = (Inl e, st'))
   \<and> (sessionUserId req = Some i \<and> getUser i (storage w) = (Inl e, st') \<longrightarrow>
        requireAuth w req = (Throw e, req, w\<lparr>storage := st'\<rparr>)
      \<and> requireAdmin w req = (Throw e, req, w\<lparr>storage := st'\<rparr>)
      \<and> calls st' = calls (storage w) @ [GetUser i]
      \<and> faults (storage w) = Some e # faults st')"
proof (intro conjI impI)
  show "case fst (requireAuth w req) of
      Next \<Rightarrow> \<exists>i u st'. sessionUserId req = Some i \<and> getUser i (storage w) = (Inr (Some u), st')
                \<and> user (fst (snd (requireAuth w req))) = Some u
    | Respond r \<Rightarrow> r = \<lparr>status = 401, body = Message ''Unauthorized''\<rparr>
    | Throw e \<Rightarrow> \<exists>i st'. sessionUserId req = Some i \<and> getUser i (storage w) = (Inl e, st')"
    by (auto simp: requireAuth_def unauthorized_def destroy_def
             split: option.splits sum.splits prod.splits)
  show "case fst (requireAdmin w req) of
      Next \<Rightarrow> fst (snd (requireAdmin w req)) = req
    | Respond r \<Rightarrow> r = \<lparr>status = 401, body = Message ''Unauthorized''\<rparr>
                 \<or> r = \<lparr>status = 403, body = Message ''Admin access required''\<rparr>
    | Throw e \<Rightarrow> \<exists>i st'. sessionUserId req = Some i \<and> getUser i (storage w) = (Inl e, st')"
    by (auto simp: requireAdmin_def unauthorized_def adminRequired_def
             split: option.splits sum.splits prod.splits)
next
  assume h: "sessionUserId req = Some i \<and> getUser i (storage w) = (Inl e, st')"
  then show "requireAuth w req = (Throw e, req, w\<lparr>storage := st'\<rparr>)"
    by (simp add: requireAuth_def)
  from h show "requireAdmin w req = (Throw e, req, w\<lparr>storage := st'\<rparr>)"
    by (simp add: requireAdmin_def)
  from h show "calls st' = calls (storage w) @ [GetUser i]"
    using getUser_Inl by blast
  from h show "faults (storage w) = Some e # faults st'"
    using getUser_Inl by blast
qed

theorem gates_outcomes_witness:
  "sessionUserId (exampleRequest (Some 1)) = Some 1
   \<and> getUser 1 (storage (exampleWorld [Some (StoreError ''db down''), None] None))
       = (Inl (StoreError ''db down''),
          \<lparr>rows = [alice, bob, carol], nextId = 43, faults = [None], calls = [GetUser 1]\<rparr>)
   \<and> requireAuth (exampleWorld [Some (StoreError ''db down''), None] None)
        (exampleRequest (Some 1))
       = (Throw (StoreError ''db down''), exampleRequest (Some 1),
          (exampleWorld [Some (StoreError ''db down''), None] None)\<lparr>storage :=
            \<lparr>rows = [alice, bob, carol], nextId = 43, faults = [None],
             calls = [GetUser 1]\<rparr>\<rparr>)
   \<and> requireAdmin (exampleWorld [Some (StoreError ''db down''), None] None)
        (exampleRequest (Some 1))
       = (Throw (StoreError ''db down''), exampleRequest (Some 1),
          (exampleWorld [Some (StoreError ''db down''), None] None)\<lparr>storage :=
            \<lparr>rows = [alice, bob, carol], nextId = 43, faults = [None],
             calls = [GetUser 1]\<rparr>\<rparr>)"
proof -
  have h1: "sessionUserId (exampleRequest (Some 1)) = Some 1"
    by (simp add: sessionUserId_def exampleRequest_def)
  have h2: "getUser 1 (storage (exampleWorld [Some (StoreError ''db down''), None] None))
       = (Inl (StoreError ''db down''),
          \<lparr>rows = [alice, bob, carol], nextId = 43, faults = [None], calls = [GetUser 1]\<rparr>)"
    by (simp add: getUser_def attempt_def example_defs)
  show ?thesis
    using h1 h2
      gates_outcomes [where w = "exampleWorld [Some (StoreError ''db down''), None] None"
                        and req = "exampleRequest (Some 1)" and i = 1
                        and e = "StoreError ''db down''"
                        and st' = "\<lparr>rows = [alice, bob, carol], nextId = 43, faults = [None],
                                   calls = [GetUser 1]\<rparr>"]
    by simp
qed

section \<open>Properties of the signup and login handlers\<close>

subsection \<open>What the storage calls do to the state\<close>

lemma getUserByUsername_effect:
  "getUserByUsername n st = (r, st') \<Longrightarrow>
     rows st' = rows st \<and> nextId st' = nextId st \<and> calls st' = calls st @ [GetUserByUsername n]"
  by (auto simp: getUserByUsername_def attempt_def split: list.splits option.splits)

lemma getAllUsers_effect:
  "getAllUsers st = (r, st') \<Longrightarrow>
     rows st' = rows st \<and> nextId st' = nextId st \<and> calls st' = calls st @ [GetAllUsers]"
  by (auto simp: getAllUsers_def attempt_def split: list.splits option.splits)

lemma getAllUsers_Inr:
  "getAllUsers st = (Inr us, st') \<Longrightarrow> us = rows st"
  by (auto simp: getAllUsers_def attempt_def split: list.splits option.splits)

lemma createUser_effect:
  "createUser f st = (r, st') \<Longrightarrow> calls st' = calls st @ [CreateUser f]"
  by (auto simp: createUser_def attempt_def Let_def split: list.splits option.splits)

lemma createUser_Inr:
  "createUser f st = (Inr u, st') \<Longrightarrow>
     role u = role f \<and> password u = password f \<and> username u = username f
     \<and> rows st' = rows st @ [u]"
  by (auto simp: createUser_def attempt_def Let_def split: list.splits option.splits)

lemma storage_save: "storage (snd (save w sid s)) = storage w"
  by (simp add: save_def split: option.splits)

subsection \<open>The paths through the signup handler\<close>

lemma signup_not_wellFormed:
  "\<forall>un pw nm. \<not> wellFormed b un pw nm \<Longrightarrow> signup w req b = (fieldsRequired, req, w)"
  by (auto simp: signup_def wellFormed_def split: option.splits)

lemma signup_wellFormed:
  assumes "wellFormed b un pw nm"
  shows "signup w req b =
    (case getUserByUsername un (storage w) of
               (Inl e, st1) \<Rightarrow> (signupFailed, req, w\<lparr>storage := st1\<rparr>)
             | (Inr (Some existingUser), st1) \<Rightarrow> (usernameExists, req, w\<lparr>storage := st1\<rparr>)
             | (Inr None, st1) \<Rightarrow>
                 (case getAllUsers st1 of
                    (Inl e, st2) \<Rightarrow> (signupFailed, req, w\<lparr>storage := st2\<rparr>)
                  | (Inr allUsers, st2) \<Rightarrow>
                      (case createUser (signupFields un pw nm b (length allUsers)) st2 of
                         (Inl e, st3) \<Rightarrow> (signupFailed, req, w\<lparr>storage := st3\<rparr>)
                       | (Inr newUser, st3) \<Rightarrow>
                           (case session req of
                              None \<Rightarrow> (signupFailed, req, w\<lparr>storage := st3\<rparr>)
                            | Some s \<Rightarrow>
                                (\<lparr>status = 200, body = UserBody (userWithoutPassword newUser)\<rparr>,
                                          req\<lparr>session := Some (s\<lparr>userId := Some (user_id newUser)\<rparr>)\<rparr>,
                                    snd (save (w\<lparr>storage := st3\<rparr>) (sessionID req) (s\<lparr>userId := Some (user_id newUser)\<rparr>)))))))"
  using assms
  by (simp add: signup_def wellFormed_def signupFields_def Let_def split: prod.splits sum.splits option.splits)

lemma signup_calls:
  assumes "wellFormed b un pw nm"
  shows "newCalls w (snd (snd (signup w req b))) = [GetUserByUsername un] \<or>
   newCalls w (snd (snd (signup w req b))) = [GetUserByUsername un, GetAllUsers] \<or>
   newCalls w (snd (snd (signup w req b))) = [GetUserByUsername un, GetAllUsers,
      CreateUser (signupFields un pw nm b (length (rows (storage w))))]"
proof -
  obtain r1 st1 where g1: "getUserByUsername un (storage w) = (r1, st1)" by (cases "getUserByUsername un (storage w)")
  note e1 = getUserByUsername_effect [OF g1]
  obtain r2 st2 where g2: "getAllUsers st1 = (r2, st2)" by (cases "getAllUsers st1")
  note e2 = getAllUsers_effect [OF g2]
  obtain r3 st3 where g3: "createUser (signupFields un pw nm b (length (rows (storage w)))) st2 = (r3, st3)"
    by (cases "createUser (signupFields un pw nm b (length (rows (storage w)))) st2")
  note e3 = createUser_effect [OF g3]
  have r2: "r2 = Inr us \<Longrightarrow> us = rows (storage w)" for us
    using getAllUsers_Inr g2 e1 by metis
  show ?thesis
    unfolding signup_wellFormed [OF assms] newCalls_def
    using g1 g2 g3 e1 e2 e3 r2
    by (cases r1; cases r2; cases r3) (auto simp: storage_save split: option.splits)
qed

lemma newCalls_same: "newCalls w w = []"
  by (simp add: newCalls_def)

lemma signup_create_call:
  assumes "CreateUser f \<in> set (newCalls w (snd (snd (signup w req b))))"
  shows "\<exists>un pw nm. wellFormed b un pw nm
           \<and> f = signupFields un pw nm b (length (rows (storage w)))"
proof (cases "\<exists>un pw nm. wellFormed b un pw nm")
  case False
  then have "signup w req b = (fieldsRequired, req, w)"
    using signup_not_wellFormed by blast
  with assms show ?thesis by (simp add: newCalls_same)
next
  case True
  then obtain un pw nm where wf: "wellFormed b un pw nm" by blast
  from signup_calls [OF wf, of w req] assms
  have "f = signupFields un pw nm b (length (rows (storage w)))" by auto
  with wf show ?thesis by blast
qed

text \<open>
  C4. The role expression yields \<^verbatim>\<open>'admin'\<close> exactly when the number of existing users
  is zero or the flag is set, and \<^verbatim>\<open>'health_worker'\<close> exactly otherwise; whenever the
  signup handler calls \<^verbatim>\<open>createUser\<close>, the role it passes is that expression on the
  number of rows in the store and the body's \<^verbatim>\<open>isFirstUser\<close>. In particular, with no
  storage fault, a well-formed signup into the empty store is answered with a user of role
  \<^verbatim>\<open>'admin'\<close>, and a following well-formed signup under another username and without
  the flag with a user of role \<^verbatim>\<open>'health_worker'\<close>.
\<close>

theorem signup_assigns_role:
  "(assignRole n flag = ''admin'' \<longleftrightarrow> n = 0 \<or> flag)
   \<and> (assignRole n flag = ''health_worker'' \<longleftrightarrow> \<not> (n = 0 \<or> flag))
   \<and> (CreateUser f \<in> set (newCalls w (snd (snd (signup w req b)))) \<longrightarrow>
        role f = assignRole (length (rows (storage w))) (body_isFirstUser b))
   \<and> (rows (storage w) = [] \<and> faults (storage w) = []
        \<and> session req = Some s \<and> session req2 = Some s2
        \<and> wellFormed b1 un1 pw1 nm1 \<and> wellFormed b2 un2 pw2 nm2
        \<and> un1 \<noteq> un2 \<and> \<not> body_isFirstUser b2 \<longrightarrow>
        (\<exists>p1. fst (signup w req b1) = \<lparr>status = 200, body = UserBody p1\<rparr>
               \<and> pub_role p1 = ''admin'')
      \<and> (\<exists>p2. fst (signup (snd (snd (signup w req b1))) req2 b2)
                 = \<lparr>status = 200, body = UserBody p2\<rparr>
               \<and> pub_role p2 = ''health_worker''))"
proof (intro conjI impI)
  show "assignRole n flag = ''admin'' \<longleftrightarrow> n = 0 \<or> flag"
    by (simp add: assignRole_def)
  show "assignRole n flag = ''health_worker'' \<longleftrightarrow> \<not> (n = 0 \<or> flag)"
    by (simp add: assignRole_def)
next
  assume "CreateUser f \<in> set (newCalls w (snd (snd (signup w req b))))"
  from signup_create_call [OF this]
  show "role f = assignRole (length (rows (storage w))) (body_isFirstUser b)"
    by (auto simp: signupFields_def)
next
  assume h: "rows (storage w) = [] \<and> faults (storage w) = []
        \<and> session req = Some s \<and> session req2 = Some s2
        \<and> wellFormed b1 un1 pw1 nm1 \<and> wellFormed b2 un2 pw2 nm2
        \<and> un1 \<noteq> un2 \<and> \<not> body_isFirstUser b2"
  then have wf1: "wellFormed b1 un1 pw1 nm1" and wf2: "wellFormed b2 un2 pw2 nm2" by simp_all
  show "\<exists>p1. fst (signup w req b1) = \<lparr>status = 200, body = UserBody p1\<rparr> \<and> pub_role p1 = ''admin''"
    using h
    by (simp add: signup_wellFormed [OF wf1] getUserByUsername_def getAllUsers_def createUser_def
          attempt_def signupFields_def assignRole_def userWithoutPassword_def Let_def)
  show "\<exists>p2. fst (signup (snd (snd (signup w req b1))) req2 b2)
                 = \<lparr>status = 200, body = UserBody p2\<rparr> \<and> pub_role p2 = ''health_worker''"
    using h
    by (simp add: signup_wellFormed [OF wf1] signup_wellFormed [OF wf2] getUserByUsername_def
          getAllUsers_def createUser_def storage_save
          attempt_def signupFields_def assignRole_def userWithoutPassword_def Let_def)
qed

theorem signup_assigns_role_witness:
  "assignRole 0 False = ''admin''
   \<and> assignRole 1 False = ''health_worker''
   \<and> CreateUser \<lparr>username = ''alice'', password = ''pw'', name = ''Alice'', email = None,
                  phone = None, role = ''admin'', isActive = True\<rparr>
        \<in> set (newCalls emptyWorld
                 (snd (snd (signup emptyWorld (exampleRequest None)
                              (signupRequest ''alice'' (Some ''pw'') ''Alice'')))))
   \<and> assignRole (length (rows (storage emptyWorld)))
        (body_isFirstUser (signupRequest ''alice'' (Some ''pw'') ''Alice'')) = ''admin''
   \<and> fst (signup emptyWorld (exampleRequest None) (signupRequest ''alice'' (Some ''pw'') ''Alice''))
       = \<lparr>status = 200, body = UserBody
            \<lparr>pub_id = 1, pub_username = ''alice'', pub_name = ''Alice'', pub_email = None,
             pub_phone = None, pub_role = ''admin'', pub_isActive = True\<rparr>\<rparr>
   \<and> fst (signup
            (snd (snd (signup emptyWorld (exampleRequest None)
                         (signupRequest ''alice'' (Some ''pw'') ''Alice''))))
            (exampleRequest None) (signupRequest ''bob'' (Some ''pw'') ''Bob''))
       = \<lparr>status = 200, body = UserBody
            \<lparr>pub_id = 2, pub_username = ''bob'', pub_name = ''Bob'', pub_email = None,
             pub_phone = None, pub_role = ''health_worker'', pub_isActive = True\<rparr>\<rparr>"
proof -
  let ?alice = "signupRequest ''alice'' (Some ''pw'') ''Alice''"
  let ?bob = "signupRequest ''bob'' (Some ''pw'') ''Bob''"
  let ?f = "\<lparr>username = ''alice'', password = ''pw'', name = ''Alice'', email = None,
             phone = None, role = ''admin'', isActive = True\<rparr>"
  have wf: "wellFormed ?alice ''alice'' ''pw'' ''Alice''" "wellFormed ?bob ''bob'' ''pw'' ''Bob''"
    by (simp_all add: wellFormed_def signupRequest_def)
  have e: "rows (storage emptyWorld) = []" "faults (storage emptyWorld) = []"
          "session (exampleRequest None) = Some \<lparr>userId = None\<rparr>"
          "\<not> body_isFirstUser ?bob" "''alice'' \<noteq> ''bob''"
    by (simp_all add: emptyWorld_def exampleRequest_def signupRequest_def)
  have w1: "signup emptyWorld (exampleRequest None) ?alice
      = (\<lparr>status = 200, body = UserBody
            \<lparr>pub_id = 1, pub_username = ''alice'', pub_name = ''Alice'', pub_email = None,
             pub_phone = None, pub_role = ''admin'', pub_isActive = True\<rparr>\<rparr>,
         \<lparr>sessionID = ''sid'', session = Some \<lparr>userId = Some 1\<rparr>, user = None\<rparr>,
         \<lparr>storage = \<lparr>rows = [\<lparr>username = ''alice'', password = ''pw'', name = ''Alice'',
                        email = None, phone = None, role = ''admin'', isActive = True,
                        user_id = 1\<rparr>],
                     nextId = 2, faults = [],
                     calls = [GetUserByUsername ''alice'', GetAllUsers, CreateUser ?f]\<rparr>,
          sessions = [(''sid'', \<lparr>userId = Some 1\<rparr>)], sessionFault = None\<rparr>)"
    by (simp add: signup_def emptyWorld_def exampleRequest_def signupRequest_def
          getUserByUsername_def getAllUsers_def createUser_def attempt_def assignRole_def
          userWithoutPassword_def orNull_def save_def dropSession_def Let_def)
  have m: "CreateUser ?f \<in> set (newCalls emptyWorld
                 (snd (snd (signup emptyWorld (exampleRequest None) ?alice))))"
    unfolding w1 by (simp add: newCalls_def emptyWorld_def)
  note t = signup_assigns_role [where w = emptyWorld and req = "exampleRequest None"
        and ?req2.0 = "exampleRequest None" and ?b1.0 = ?alice and ?b2.0 = ?bob
        and ?un1.0 = "''alice''" and ?un2.0 = "''bob''" and b = ?alice and f = ?f]
  have r: "assignRole (length (rows (storage emptyWorld))) (body_isFirstUser ?alice) = ''admin''"
    using t [THEN conjunct2, THEN conjunct2, THEN conjunct1, THEN mp, OF m] by simp
  have b: "fst (signup (snd (snd (signup emptyWorld (exampleRequest None) ?alice)))
            (exampleRequest None) ?bob)
       = \<lparr>status = 200, body = UserBody
            \<lparr>pub_id = 2, pub_username = ''bob'', pub_name = ''Bob'', pub_email = None,
             pub_phone = None, pub_role = ''health_worker'', pub_isActive = True\<rparr>\<rparr>"
    unfolding w1
    by (simp add: signup_def exampleRequest_def signupRequest_def
          getUserByUsername_def getAllUsers_def createUser_def attempt_def assignRole_def
          userWithoutPassword_def orNull_def save_def dropSession_def Let_def)
  have a0: "assignRole 0 False = ''admin''"
    using signup_assigns_role [where n = 0 and flag = False] by simp
  have a1: "assignRole 1 False = ''health_worker''"
    using signup_assigns_role [where n = 1 and flag = False] by simp
  have a: "fst (signup emptyWorld (exampleRequest None) ?alice)
       = \<lparr>status = 200, body = UserBody
            \<lparr>pub_id = 1, pub_username = ''alice'', pub_name = ''Alice'', pub_email = None,
             pub_phone = None, pub_role = ''admin'', pub_isActive = True\<rparr>\<rparr>"
    unfolding w1 by simp
  have sc: "(\<exists>p1. fst (signup emptyWorld (exampleRequest None) ?alice)
                  = \<lparr>status = 200, body = UserBody p1\<rparr> \<and> pub_role p1 = ''admin'')
      \<and> (\<exists>p2. fst (signup (snd (snd (signup emptyWorld (exampleRequest None) ?alice)))
                       (exampleRequest None) ?bob)
                  = \<lparr>status = 200, body = UserBody p2\<rparr> \<and> pub_role p2 = ''health_worker'')"
    using t [THEN conjunct2, THEN conjunct2, THEN conjunct2, THEN mp] wf e by blast
  show ?thesis using a0 a1 m r a b sc by (intro conjI)
qed

text \<open>
  C8, as the claim has it, fails: a signup under the username of the existing user alice
  that carries no password is turned away by the test of the required keys, with the
  message of that test, before the handler asks the store whether the username exists.
  When the body is complete, the duplicate is turned away under the same status 400, told
  apart from the first only by its message.
\<close>

theorem signup_duplicate_counterexample:
  "alice \<in> set (rows (storage (exampleWorld [] None)))
   \<and> username alice = ''alice''
   \<and> signup (exampleWorld [] None) (exampleRequest None) (signupRequest ''alice'' None ''Alice'')
       = (\<lparr>status = 400, body = Message ''Username, password, and name are required''\<rparr>,
          exampleRequest None, exampleWorld [] None)
   \<and> fst (signup (exampleWorld [] None) (exampleRequest None)
             (signupRequest ''alice'' (Some ''secret'') ''Alice Again''))
       = \<lparr>status = 400, body = Message ''Username already exists''\<rparr>"
  by (simp add: signup_def signupRequest_def fieldsRequired_def usernameExists_def
        getUserByUsername_def attempt_def exampleWorld_def alice_def)

text \<open>
  C8, as the code has it. A signup whose body passes the test of the required keys and
  whose username the store finds on an existing user is answered with status 400 and the
  message ``Username already exists''. The handler has made the one call
  \<^verbatim>\<open>getUserByUsername\<close> and no other: no user is created, and the rows and the next
  identifier of the store are as before.
\<close>

theorem signup_duplicate_username:
  assumes "wellFormed b un pw nm"
      and "getUserByUsername un (storage w) = (Inr (Some existingUser), st1)"
  shows "signup w req b
           = (\<lparr>status = 400, body = Message ''Username already exists''\<rparr>, req,
              w\<lparr>storage := st1\<rparr>)
       \<and> existingUser \<in> set (rows (storage w)) \<and> username existingUser = un
       \<and> rows st1 = rows (storage w) \<and> nextId st1 = nextId (storage w)
       \<and> newCalls w (w\<lparr>storage := st1\<rparr>) = [GetUserByUsername un]"
proof -
  have "find (\<lambda>u. username u = un) (rows (storage w)) = Some existingUser"
    using assms(2)
    by (auto simp: getUserByUsername_def attempt_def split: list.splits option.splits)
  then have "existingUser \<in> set (rows (storage w)) \<and> username existingUser = un"
    by (auto simp: find_Some_iff)
  then show ?thesis
    using getUserByUsername_effect [OF assms(2)]
    by (simp add: signup_wellFormed [OF assms(1)] assms(2) usernameExists_def newCalls_def)
qed

theorem signup_duplicate_username_witness:
  "wellFormed (signupRequest ''alice'' (Some ''secret'') ''Alice Again'') ''alice'' ''secret'' ''Alice Again''
   \<and> getUserByUsername ''alice'' (storage (exampleWorld [] None))
       = (Inr (Some alice),
          \<lparr>rows = [alice, bob, carol], nextId = 43, faults = [],
           calls = [GetUserByUsername ''alice'']\<rparr>)
   \<and> signup (exampleWorld [] None) (exampleRequest None)
        (signupRequest ''alice'' (Some ''secret'') ''Alice Again'')
       = (\<lparr>status = 400, body = Message ''Username already exists''\<rparr>, exampleRequest None,
          (exampleWorld [] None)\<lparr>storage :=
            \<lparr>rows = [alice, bob, carol], nextId = 43, faults = [],
             calls = [GetUserByUsername ''alice'']\<rparr>\<rparr>)"
proof -
  have h1: "wellFormed (signupRequest ''alice'' (Some ''secret'') ''Alice Again'')
              ''alice'' ''secret'' ''Alice Again''"
    by (simp add: wellFormed_def signupRequest_def)
  have h2: "getUserByUsername ''alice'' (storage (exampleWorld [] None))
       = (Inr (Some alice),
          \<lparr>rows = [alice, bob, carol], nextId = 43, faults = [],
           calls = [GetUserByUsername ''alice'']\<rparr>)"
    by (simp add: getUserByUsername_def attempt_def example_defs)
  show ?thesis
    using h1 h2 signup_duplicate_username [OF h1 h2, of "exampleRequest None"] by simp
qed

subsection \<open>The paths through the login handler\<close>

lemma login_no_credentials:
  "\<forall>un pw. \<not> credentials b un pw \<Longrightarrow> login compare w req b = (credentialsRequired, req, w)"
  by (auto simp: login_def credentials_def split: option.splits)

lemma login_credentials:
  assumes "credentials b un pw"
  shows "login compare w req b =
     (case getUserByUsername un (storage w) of
        (Inl e, st1) \<Rightarrow> (loginFailed, req, w\<lparr>storage := st1\<rparr>)
      | (Inr None, st1) \<Rightarrow> (invalidCredentials, req, w\<lparr>storage := st1\<rparr>)
      | (Inr (Some u), st1) \<Rightarrow>
          if \<not> isActive u then (invalidCredentials, req, w\<lparr>storage := st1\<rparr>)
          else if \<not> compare pw (password u) then (invalidCredentials, req, w\<lparr>storage := st1\<rparr>)
          else
            (case session req of
               None \<Rightarrow> (loginFailed, req, w\<lparr>storage := st1\<rparr>)
             | Some s \<Rightarrow>
                 (\<lparr>status = 200, body = UserBody (userWithoutPassword u)\<rparr>,
                  req\<lparr>session := Some (s\<lparr>userId := Some (user_id u)\<rparr>)\<rparr>,
                  snd (save (w\<lparr>storage := st1\<rparr>) (sessionID req)
                         (s\<lparr>userId := Some (user_id u)\<rparr>)))))"
  using assms
  by (simp add: login_def credentials_def Let_def split: prod.splits sum.splits option.splits)

lemma login_401:
  assumes "status (fst (login compare w req b)) = 401"
  shows "fst (login compare w req b) = invalidCredentials"
proof (cases "\<exists>un pw. credentials b un pw")
  case False
  then have "login compare w req b = (credentialsRequired, req, w)"
    using login_no_credentials by blast
  with assms show ?thesis by (simp add: credentialsRequired_def)
next
  case True
  then obtain un pw where c: "credentials b un pw" by blast
  obtain r st1 where g: "getUserByUsername un (storage w) = (r, st1)"
    by (cases "getUserByUsername un (storage w)")
  show ?thesis
    using assms unfolding login_credentials [OF c] g
    by (auto simp: loginFailed_def split: sum.splits option.splits if_splits)
qed

lemma requireAuth_Respond:
  assumes "fst (requireAuth w req) = Respond r"
  shows "r = unauthorized"
  using assms
  by (auto simp: requireAuth_def destroy_def split: option.splits sum.splits prod.splits if_splits)

text \<open>
  C6, as the claim has it, fails: \<^verbatim>\<open>requireAdmin\<close> tells the causes apart. Without a
  session it answers 401 ``Unauthorized''; to a session whose user id resolves to no row it
  answers 403 ``Admin access required''.
\<close>

theorem auth_failures_counterexample:
  "fst (requireAdmin (exampleWorld [] None) (exampleRequest None))
     = Respond \<lparr>status = 401, body = Message ''Unauthorized''\<rparr>
   \<and> fst (getUser 7 (storage (exampleWorld [] None))) = Inr None
   \<and> fst (requireAdmin (exampleWorld [] None) (exampleRequest (Some 7)))
     = Respond \<lparr>status = 403, body = Message ''Admin access required''\<rparr>"
  by (simp add: requireAdmin_def unauthorized_def adminRequired_def sessionUserId_def
        getUser_def attempt_def example_defs)

text \<open>
  C6, as the code has it. \<^verbatim>\<open>requireAuth\<close> of the route module with the signup route
  answers a missing session, a user id that resolves to no row and a deactivated user with
  one and the same response, 401 ``Unauthorized'', and has no other rejection. The login
  handler answers an unknown username, a deactivated user and a wrong password with one
  and the same response, 401 ``Invalid credentials'', and has no other 401. The other two
  gates do not: \<^verbatim>\<open>requireAdmin\<close> answers a missing session with 401 ``Unauthorized'' and
  the session of a missing user with 403 ``Admin access required''; \<^verbatim>\<open>requireAuth\<close> of
  \<^verbatim>\<open>server/routes.ts\<close> answers a missing session with 401 ``Unauthorized'' and lets
  every session that carries a user id through.
\<close>

theorem auth_failure_responses:
  "(sessionUserId req = None \<longrightarrow>
      fst (requireAuth w req) = Respond \<lparr>status = 401, body = Message ''Unauthorized''\<rparr>)
   \<and> (sessionUserId req = Some i \<and> getUser i (storage w) = (Inr found, st')
        \<and> (found = None \<or> (\<exists>u. found = Some u \<and> \<not> isActive u)) \<longrightarrow>
      fst (requireAuth w req) = Respond \<lparr>status = 401, body = Message ''Unauthorized''\<rparr>)
   \<and> (fst (requireAuth w req) = Respond r \<longrightarrow>
      r = \<lparr>status = 401, body = Message ''Unauthorized''\<rparr>)
   \<and> (credentials b un pw \<and> getUserByUsername un (storage w) = (Inr None, st1) \<longrightarrow>
      fst (login compare w req b) = \<lparr>status = 401, body = Message ''Invalid credentials''\<rparr>)
   \<and> (credentials b un pw \<and> getUserByUsername un (storage w) = (Inr (Some u), st1)
        \<and> \<not> isActive u \<longrightarrow>
      fst (login compare w req b) = \<lparr>status = 401, body = Message ''Invalid credentials''\<rparr>)
   \<and> (credentials b un pw \<and> getUserByUsername un (storage w) = (Inr (Some u), st1)
        \<and> isActive u \<and> \<not> compare pw (password u) \<longrightarrow>
      fst (login compare w req b) = \<lparr>status = 401, body = Message ''Invalid credentials''\<rparr>)
   \<and> (status (fst (login compare w req b)) = 401 \<longrightarrow>
      fst (login compare w req b) = \<lparr>status = 401, body = Message ''Invalid credentials''\<rparr>)
   \<and> (sessionUserId req = None \<longrightarrow>
      fst (requireAdmin w req) = Respond \<lparr>status = 401, body = Message ''Unauthorized''\<rparr>)
   \<and> (sessionUserId req = Some i \<and> getUser i (storage w) = (Inr None, st') \<longrightarrow>
      fst (requireAdmin w req)
        = Respond \<lparr>status = 403, body = Message ''Admin access required''\<rparr>)
   \<and> (sessionUserId req = None \<longrightarrow>
      fst (requireAuth_routes w req)
        = Respond \<lparr>status = 401, body = Message ''Unauthorized''\<rparr>)
   \<and> (sessionUserId req = Some i \<longrightarrow> fst (requireAuth_routes w req) = Next)"
proof (intro conjI impI)
  show "fst (requireAuth w req) = Respond \<lparr>status = 401, body = Message ''Unauthorized''\<rparr>"
    if "sessionUserId req = None"
    using that by (simp add: requireAuth_def unauthorized_def)
  show "fst (requireAuth w req) = Respond \<lparr>status = 401, body = Message ''Unauthorized''\<rparr>"
    if "sessionUserId req = Some i \<and> getUser i (storage w) = (Inr found, st')
        \<and> (found = None \<or> (\<exists>u. found = Some u \<and> \<not> isActive u))"
    using that
    by (auto simp: requireAuth_def unauthorized_def destroy_def split: option.splits)
  show "r = \<lparr>status = 401, body = Message ''Unauthorized''\<rparr>"
    if "fst (requireAuth w req) = Respond r"
    using requireAuth_Respond [OF that] by (simp add: unauthorized_def)
  show "fst (login compare w req b) = \<lparr>status = 401, body = Message ''Invalid credentials''\<rparr>"
    if "credentials b un pw \<and> getUserByUsername un (storage w) = (Inr None, st1)"
    using that by (simp add: login_credentials [of b un pw] invalidCredentials_def)
  show "fst (login compare w req b) = \<lparr>status = 401, body = Message ''Invalid credentials''\<rparr>"
    if "credentials b un pw \<and> getUserByUsername un (storage w) = (Inr (Some u), st1)
        \<and> \<not> isActive u"
    using that by (simp add: login_credentials [of b un pw] invalidCredentials_def)
  show "fst (login compare w req b) = \<lparr>status = 401, body = Message ''Invalid credentials''\<rparr>"
    if "credentials b un pw \<and> getUserByUsername un (storage w) = (Inr (Some u), st1)
        \<and> isActive u \<and> \<not> compare pw (password u)"
    using that by (simp add: login_credentials [of b un pw] invalidCredentials_def)
  show "fst (login compare w req b) = \<lparr>status = 401, body = Message ''Invalid credentials''\<rparr>"
    if "status (fst (login compare w req b)) = 401"
    using login_401 [OF that] by (simp add: invalidCredentials_def)
  show "fst (requireAdmin w req) = Respond \<lparr>status = 401, body = Message ''Unauthorized''\<rparr>"
    if "sessionUserId req = None"
    using that by (simp add: requireAdmin_def unauthorized_def)
  show "fst (requireAdmin w req)
        = Respond \<lparr>status = 403, body = Message ''Admin access required''\<rparr>"
    if "sessionUserId req = Some i \<and> getUser i (storage w) = (Inr None, st')"
    using that by (simp add: requireAdmin_def adminRequired_def)
  show "fst (requireAuth_routes w req)
        = Respond \<lparr>status = 401, body = Message ''Unauthorized''\<rparr>"
    if "sessionUserId req = None"
    using that by (simp add: requireAuth_routes_def unauthorized_def)
  show "fst (requireAuth_routes w req) = Next" if "sessionUserId req = Some i"
    using that by (simp add: requireAuth_routes_def)
qed

theorem auth_failure_responses_witness:
  "fst (requireAuth (exampleWorld [] None) (exampleRequest None))
     = Respond \<lparr>status = 401, body = Message ''Unauthorized''\<rparr>
   \<and> fst (requireAuth (exampleWorld [] None) (exampleRequest (Some 42)))
     = Respond \<lparr>status = 401, body = Message ''Unauthorized''\<rparr>
   \<and> fst (requireAuth (exampleWorld [] None) (exampleRequest (Some 7)))
     = Respond \<lparr>status = 401, body = Message ''Unauthorized''\<rparr>
   \<and> fst (login (=) (exampleWorld [] None) (exampleRequest None) (loginRequest ''nobody'' ''pw''))
     = \<lparr>status = 401, body = Message ''Invalid credentials''\<rparr>
   \<and> fst (login (=) (exampleWorld [] None) (exampleRequest None) (loginRequest ''bob'' ''pw''))
     = \<lparr>status = 401, body = Message ''Invalid credentials''\<rparr>
   \<and> fst (login (=) (exampleWorld [] None) (exampleRequest None) (loginRequest ''alice'' ''wrong''))
     = \<lparr>status = 401, body = Message ''Invalid credentials''\<rparr>
   \<and> fst (requireAdmin (exampleWorld [] None) (exampleRequest None))
     = Respond \<lparr>status = 401, body = Message ''Unauthorized''\<rparr>
   \<and> fst (requireAdmin (exampleWorld [] None) (exampleRequest (Some 7)))
     = Respond \<lparr>status = 403, body = Message ''Admin access required''\<rparr>
   \<and> fst (requireAuth_routes (exampleWorld [] None) (exampleRequest None))
     = Respond \<lparr>status = 401, body = Message ''Unauthorized''\<rparr>
   \<and> fst (requireAuth_routes (exampleWorld [] None) (exampleRequest (Some 42))) = Next"
proof -
  let ?w = "exampleWorld [] None"
  have n: "sessionUserId (exampleRequest None) = None"
    by (simp add: sessionUserId_def exampleRequest_def)
  have s42: "sessionUserId (exampleRequest (Some 42)) = Some 42"
    and s7: "sessionUserId (exampleRequest (Some 7)) = Some 7"
    by (simp_all add: sessionUserId_def exampleRequest_def)
  have g42: "getUser 42 (storage ?w)
       = (Inr (Some bob),
          \<lparr>rows = [alice, bob, carol], nextId = 43, faults = [], calls = [GetUser 42]\<rparr>)"
    by (simp add: getUser_def attempt_def example_defs)
  have g7: "getUser 7 (storage ?w)
       = (Inr None,
          \<lparr>rows = [alice, bob, carol], nextId = 43, faults = [], calls = [GetUser 7]\<rparr>)"
    by (simp add: getUser_def attempt_def example_defs)
  have c42: "Some bob = None \<or> (\<exists>u. Some bob = Some u \<and> \<not> isActive u)"
    by (simp add: bob_def)
  have c7: "(None :: user option) = None \<or> (\<exists>u. None = Some u \<and> \<not> isActive u)"
    by simp
  have cr: "credentials (loginRequest ''nobody'' ''pw'') ''nobody'' ''pw''"
           "credentials (loginRequest ''bob'' ''pw'') ''bob'' ''pw''"
           "credentials (loginRequest ''alice'' ''wrong'') ''alice'' ''wrong''"
    by (simp_all add: credentials_def loginRequest_def)
  have un: "getUserByUsername ''nobody'' (storage ?w)
       = (Inr None, \<lparr>rows = [alice, bob, carol], nextId = 43, faults = [],
                     calls = [GetUserByUsername ''nobody'']\<rparr>)"
    by (simp add: getUserByUsername_def attempt_def example_defs)
  have ub: "getUserByUsername ''bob'' (storage ?w)
       = (Inr (Some bob), \<lparr>rows = [alice, bob, carol], nextId = 43, faults = [],
                           calls = [GetUserByUsername ''bob'']\<rparr>)"
    by (simp add: getUserByUsername_def attempt_def example_defs)
  have ua: "getUserByUsername ''alice'' (storage ?w)
       = (Inr (Some alice), \<lparr>rows = [alice, bob, carol], nextId = 43, faults = [],
                             calls = [GetUserByUsername ''alice'']\<rparr>)"
    by (simp add: getUserByUsername_def attempt_def example_defs)
  have ib: "\<not> isActive bob" and ia: "isActive alice" and pa: "\<not> ''wrong'' = password alice"
    by (simp_all add: bob_def alice_def)
  note t = auth_failure_responses [where compare = "(=)"]
  have a1: "fst (requireAuth ?w (exampleRequest None))
              = Respond \<lparr>status = 401, body = Message ''Unauthorized''\<rparr>"
    using t [THEN conjunct1, THEN mp, OF n] .
  have a2: "fst (requireAuth ?w (exampleRequest (Some 42)))
              = Respond \<lparr>status = 401, body = Message ''Unauthorized''\<rparr>"
    using t [THEN conjunct2, THEN conjunct1, THEN mp, OF conjI [OF s42 conjI [OF g42 c42]]] .
  have a3: "fst (requireAuth ?w (exampleRequest (Some 7)))
              = Respond \<lparr>status = 401, body = Message ''Unauthorized''\<rparr>"
    using t [THEN conjunct2, THEN conjunct1, THEN mp, OF conjI [OF s7 conjI [OF g7 c7]]] .
  note tl = t [THEN conjunct2, THEN conjunct2, THEN conjunct2]
  have l1: "fst (login (=) ?w (exampleRequest None) (loginRequest ''nobody'' ''pw''))
              = \<lparr>status = 401, body = Message ''Invalid credentials''\<rparr>"
    using tl [THEN conjunct1, THEN mp, OF conjI [OF cr(1) un]] .
  have l2: "fst (login (=) ?w (exampleRequest None) (loginRequest ''bob'' ''pw''))
              = \<lparr>status = 401, body = Message ''Invalid credentials''\<rparr>"
    using tl [THEN conjunct2, THEN conjunct1, THEN mp, OF conjI [OF cr(2) conjI [OF ub ib]]] .
  have l3: "fst (login (=) ?w (exampleRequest None) (loginRequest ''alice'' ''wrong''))
              = \<lparr>status = 401, body = Message ''Invalid credentials''\<rparr>"
    using tl [THEN conjunct2, THEN conjunct2, THEN conjunct1, THEN mp,
              OF conjI [OF cr(3) conjI [OF ua conjI [OF ia pa]]]] .
  note ta = tl [THEN conjunct2, THEN conjunct2, THEN conjunct2, THEN conjunct2]
  have d1: "fst (requireAdmin ?w (exampleRequest None))
              = Respond \<lparr>status = 401, body = Message ''Unauthorized''\<rparr>"
    using ta [THEN conjunct1, THEN mp, OF n] .
  have d2: "fst (requireAdmin ?w (exampleRequest (Some 7)))
              = Respond \<lparr>status = 403, body = Message ''Admin access required''\<rparr>"
    using ta [THEN conjunct2, THEN conjunct1, THEN mp, OF conjI [OF s7 g7]] .
  have o1: "fst (requireAuth_routes ?w (exampleRequest None))
              = Respond \<lparr>status = 401, body = Message ''Unauthorized''\<rparr>"
    using ta [THEN conjunct2, THEN conjunct2, THEN conjunct1, THEN mp, OF n] .
  have o2: "fst (requireAuth_routes ?w (exampleRequest (Some 42))) = Next"
    using ta [THEN conjunct2, THEN conjunct2, THEN conjunct2, THEN mp, OF s42] .
  show ?thesis
    using a1 a2 a3 l1 l2 l3 d1 d2 o1 o2 by (intro conjI)
qed

text \<open>
  C10. Every \<^verbatim>\<open>createUser\<close> call the signup handler makes carries, as its password,
  the password of the request body, unchanged; and the handler does make that call, with
  exactly the object shown, whenever the body is well formed, the username is new and the
  two lookups succeed. The login handler, for an active user found under the username,
  answers 200 exactly when \<^verbatim>\<open>bcrypt.compare\<close> accepts the pair (password of the request,
  stored password), and 401 exactly when it does not.
\<close>

theorem signup_forwards_password:
  "(CreateUser f \<in> set (newCalls w (snd (snd (signup w req b)))) \<longrightarrow>
      body_password b = Some (password f))
   \<and> (wellFormed b un pw nm \<and> getUserByUsername un (storage w) = (Inr None, st1)
        \<and> getAllUsers st1 = (Inr allUsers, st2) \<longrightarrow>
      newCalls w (snd (snd (signup w req b)))
        = [GetUserByUsername un, GetAllUsers,
           CreateUser \<lparr>username = un, password = pw, name = nm,
                       email = orNull (body_email b), phone = orNull (body_phone b),
                       role = assignRole (length allUsers) (body_isFirstUser b),
                       isActive = True\<rparr>])
   \<and> (credentials lb lun lpw \<and> getUserByUsername lun (storage w) = (Inr (Some u), st1)
        \<and> isActive u \<and> session req = Some s \<longrightarrow>
      (status (fst (login compare w req lb)) = 200 \<longleftrightarrow> compare lpw (password u))
      \<and> (status (fst (login compare w req lb)) = 401 \<longleftrightarrow> \<not> compare lpw (password u)))"
proof (intro conjI impI)
  assume "CreateUser f \<in> set (newCalls w (snd (snd (signup w req b))))"
  from signup_create_call [OF this]
  show "body_password b = Some (password f)"
    by (auto simp: signupFields_def wellFormed_def)
next
  assume h: "wellFormed b un pw nm \<and> getUserByUsername un (storage w) = (Inr None, st1)
        \<and> getAllUsers st1 = (Inr allUsers, st2)"
  then have wf: "wellFormed b un pw nm"
    and g1: "getUserByUsername un (storage w) = (Inr None, st1)"
    and g2: "getAllUsers st1 = (Inr allUsers, st2)" by simp_all
  let ?f = "signupFields un pw nm b (length allUsers)"
  obtain r3 st3 where g3: "createUser ?f st2 = (r3, st3)"
    by (cases "createUser ?f st2")
  have c: "calls st3 = calls (storage w) @ [GetUserByUsername un, GetAllUsers, CreateUser ?f]"
    using getUserByUsername_effect [OF g1] getAllUsers_effect [OF g2] createUser_effect [OF g3]
    by simp
  have "newCalls w (snd (snd (signup w req b)))
          = [GetUserByUsername un, GetAllUsers, CreateUser ?f]"
    using g1 g2 g3 c
    by (cases r3)
       (auto simp: signup_wellFormed [OF wf] newCalls_def storage_save split: option.splits)
  then show "newCalls w (snd (snd (signup w req b)))
        = [GetUserByUsername un, GetAllUsers,
           CreateUser \<lparr>username = un, password = pw, name = nm,
                       email = orNull (body_email b), phone = orNull (body_phone b),
                       role = assignRole (length allUsers) (body_isFirstUser b),
                       isActive = True\<rparr>]"
    by (simp add: signupFields_def)
next
  assume h: "credentials lb lun lpw \<and> getUserByUsername lun (storage w) = (Inr (Some u), st1)
        \<and> isActive u \<and> session req = Some s"
  then have c: "credentials lb lun lpw" by simp
  from h show "status (fst (login compare w req lb)) = 200 \<longleftrightarrow> compare lpw (password u)"
    by (simp add: login_credentials [OF c] invalidCredentials_def)
  from h show "status (fst (login compare w req lb)) = 401 \<longleftrightarrow> \<not> compare lpw (password u)"
    by (simp add: login_credentials [OF c] invalidCredentials_def)
qed

theorem signup_forwards_password_witness:
  "newCalls (exampleWorld [] None)
      (snd (snd (signup (exampleWorld [] None) (exampleRequest None)
                   (signupRequest ''erin'' (Some ''plain text'') ''Erin''))))
     = [GetUserByUsername ''erin'', GetAllUsers,
        CreateUser \<lparr>username = ''erin'', password = ''plain text'', name = ''Erin'',
                    email = None, phone = None, role = ''health_worker'', isActive = True\<rparr>]
   \<and> body_password (signupRequest ''erin'' (Some ''plain text'') ''Erin'') = Some ''plain text''
   \<and> status (fst (login (=) (exampleWorld [] None) (exampleRequest None)
                     (loginRequest ''alice'' ''pw''))) = 200
   \<and> status (fst (login (=) (exampleWorld [] None) (exampleRequest None)
                     (loginRequest ''alice'' ''wrong''))) = 401"
proof -
  let ?b = "signupRequest ''erin'' (Some ''plain text'') ''Erin''"
  let ?st1 = "\<lparr>rows = [alice, bob, carol], nextId = 43, faults = [],
               calls = [GetUserByUsername ''erin'']\<rparr>"
  let ?st2 = "\<lparr>rows = [alice, bob, carol], nextId = 43, faults = [],
               calls = [GetUserByUsername ''erin'', GetAllUsers]\<rparr>"
  have wf: "wellFormed ?b ''erin'' ''plain text'' ''Erin''"
    by (simp add: wellFormed_def signupRequest_def)
  have g1: "getUserByUsername ''erin'' (storage (exampleWorld [] None)) = (Inr None, ?st1)"
    by (simp add: getUserByUsername_def attempt_def example_defs)
  have g2: "getAllUsers ?st1 = (Inr [alice, bob, carol], ?st2)"
    by (simp add: getAllUsers_def attempt_def)
  note sp = signup_forwards_password [THEN conjunct2, THEN conjunct1, THEN mp,
              OF conjI [OF wf conjI [OF g1 g2]]]
  have n: "newCalls (exampleWorld [] None)
      (snd (snd (signup (exampleWorld [] None) (exampleRequest None) ?b)))
     = [GetUserByUsername ''erin'', GetAllUsers,
        CreateUser \<lparr>username = ''erin'', password = ''plain text'', name = ''Erin'',
                    email = None, phone = None, role = ''health_worker'', isActive = True\<rparr>]"
    using sp [of "exampleRequest None"]
    by (simp add: signupRequest_def orNull_def assignRole_def)
  have m: "CreateUser \<lparr>username = ''erin'', password = ''plain text'', name = ''Erin'',
                    email = None, phone = None, role = ''health_worker'', isActive = True\<rparr>
            \<in> set (newCalls (exampleWorld [] None)
      (snd (snd (signup (exampleWorld [] None) (exampleRequest None) ?b))))"
    unfolding n by simp
  have p: "body_password ?b = Some ''plain text''"
    using signup_forwards_password [THEN conjunct1, THEN mp, OF m] by simp
  have c1: "credentials (loginRequest ''alice'' ''pw'') ''alice'' ''pw''"
   and c2: "credentials (loginRequest ''alice'' ''wrong'') ''alice'' ''wrong''"
    by (simp_all add: credentials_def loginRequest_def)
  have ga: "getUserByUsername ''alice'' (storage (exampleWorld [] None))
       = (Inr (Some alice),
          \<lparr>rows = [alice, bob, carol], nextId = 43, faults = [],
           calls = [GetUserByUsername ''alice'']\<rparr>)"
    by (simp add: getUserByUsername_def attempt_def example_defs)
  have act: "isActive alice" by (simp add: alice_def)
  have ses: "session (exampleRequest None) = Some \<lparr>userId = None\<rparr>"
    by (simp add: exampleRequest_def)
  note lg = signup_forwards_password [THEN conjunct2, THEN conjunct2, THEN mp]
  have l1: "status (fst (login (=) (exampleWorld [] None) (exampleRequest None)
                     (loginRequest ''alice'' ''pw''))) = 200"
    using lg [OF conjI [OF c1 conjI [OF ga conjI [OF act ses]]], of "(=)"]
    by (simp add: alice_def)
  have l2: "status (fst (login (=) (exampleWorld [] None) (exampleRequest None)
                     (loginRequest ''alice'' ''wrong''))) = 401"
    using lg [OF conjI [OF c2 conjI [OF ga conjI [OF act ses]]], of "(=)"]
    by (simp add: alice_def)
  show ?thesis using n p l1 l2 by (intro conjI)
qed

end
